theory Spec2Isabelle
  imports Main "HOL-Library.AList" "HOL-Library.Sublist"
begin

section \<open>Python values, dictionaries and errors\<close>

text \<open>
  The clients of \<^verbatim>\<open>mws/apis/inbound_shipments.py\<close> and \<^verbatim>\<open>mws/apis/reports.py\<close> only
  shape dictionaries of request parameters. The values that travel through them are
  modelled by the scalar Python values below (\<^verbatim>\<open>None\<close>, booleans, unbounded integers and
  text); floats and nested containers as dictionary values are outside the model.
\<close>

datatype pyval = PNone | PBool bool | PInt int | PStr string

text \<open>
  A Python \<^verbatim>\<open>dict\<close> with text keys is the list of its \<^verbatim>\<open>items()\<close> in insertion order.
  Lookups (\<^verbatim>\<open>k in d\<close>, \<^verbatim>\<open>d.get(k, default)\<close>) go through \<^const>\<open>map_of\<close>; a store
  \<^verbatim>\<open>d[k] = v\<close> is \<^const>\<open>AList.update\<close>, which overwrites in place or appends.
\<close>

type_synonym pydict = "(string \<times> pyval) list"

text \<open>An argument that the caller may pass as a dictionary or as anything else.\<close>

datatype pyobj = Scalar pyval | Dict pydict

text \<open>
  The two kinds of exception the modules raise: \<^verbatim>\<open>MWSError(message)\<close> and the
  \<^verbatim>\<open>AssertionError(message)\<close> of a failed \<^verbatim>\<open>assert\<close>.
\<close>

datatype error = MWSError string | AssertionError string

text \<open>Truthiness (\<^verbatim>\<open>if not x\<close>) of the values and arguments above.\<close>

fun truthy :: "pyval \<Rightarrow> bool" where
  "truthy PNone = False"
| "truthy (PBool b) = b"
| "truthy (PInt i) = (i \<noteq> 0)"
| "truthy (PStr s) = (s \<noteq> [])"

fun truthy_obj :: "pyobj \<Rightarrow> bool" where
  "truthy_obj (Scalar v) = truthy v"
| "truthy_obj (Dict d) = (d \<noteq> [])"

text \<open>\<^verbatim>\<open>isinstance(x, dict)\<close> and \<^verbatim>\<open>isinstance(x, str)\<close>.\<close>

fun is_dict :: "pyobj \<Rightarrow> bool" where
  "is_dict (Dict d) = True"
| "is_dict (Scalar v) = False"

fun is_str :: "pyval \<Rightarrow> bool" where
  "is_str (PStr s) = True"
| "is_str v = False"

subsection \<open>The builtin \<^verbatim>\<open>str\<close>\<close>

definition digit_char :: "nat \<Rightarrow> char" where
  "digit_char d = ''0123456789'' ! d"

function str_nat :: "nat \<Rightarrow> string" where
  "str_nat n = (if n < 10 then [digit_char n] else str_nat (n div 10) @ [digit_char (n mod 10)])"
  by pat_completeness auto
termination
  by (relation "measure id") auto

declare str_nat.simps [simp del]

fun py_str :: "pyval \<Rightarrow> string" where
  "py_str PNone = ''None''"
| "py_str (PBool b) = (if b then ''True'' else ''False'')"
| "py_str (PInt i) = (if i < 0 then ''-'' @ str_nat (nat (- i)) else str_nat (nat i))"
| "py_str (PStr s) = s"

text \<open>\<^verbatim>\<open>sep.join(xs)\<close>.\<close>

fun join :: "string \<Rightarrow> string list \<Rightarrow> string" where
  "join sep [] = []"
| "join sep [x] = x"
| "join sep (x # y # ys) = x @ sep @ join sep (y # ys)"

subsection \<open>Dictionary operations\<close>

definition dict_has :: "pydict \<Rightarrow> string \<Rightarrow> bool" where
  "dict_has d k = (map_of d k \<noteq> None)"

definition dict_get :: "pydict \<Rightarrow> string \<Rightarrow> pyval \<Rightarrow> pyval" where
  "dict_get d k dflt = (case map_of d k of None \<Rightarrow> dflt | Some v \<Rightarrow> v)"

text \<open>\<^verbatim>\<open>d.update(other)\<close>: every item of \<open>other\<close> is stored into \<open>d\<close>, in order.\<close>

definition dict_update :: "pydict \<Rightarrow> pydict \<Rightarrow> pydict" where
  "dict_update d other = fold (\<lambda>(k, v). AList.update k v) other d"

text \<open>
  A dictionary display or comprehension: the pairs are stored one after the other into
  an empty dictionary, so a repeated key keeps its first position and its last value.
\<close>

definition dict_of :: "(string \<times> pyval) list \<Rightarrow> pydict" where
  "dict_of kvs = dict_update [] kvs"

section \<open>\<^verbatim>\<open>parse_item_args\<close>\<close>

text \<open>
  A row of a \<^verbatim>\<open>key_config\<close> table:
  \<^verbatim>\<open>(input_key, output_key, is_required, default_value)\<close>.
\<close>

type_synonym key_config = "(string \<times> string \<times> bool \<times> pyval) list"

definition c0 :: "string \<times> string \<times> bool \<times> pyval \<Rightarrow> string" where
  "c0 c = fst c"

definition c1 :: "string \<times> string \<times> bool \<times> pyval \<Rightarrow> string" where
  "c1 c = fst (snd c)"

definition c2 :: "string \<times> string \<times> bool \<times> pyval \<Rightarrow> bool" where
  "c2 c = fst (snd (snd c))"

definition c3 :: "string \<times> string \<times> bool \<times> pyval \<Rightarrow> pyval" where
  "c3 c = snd (snd (snd c))"

definition plan_key_config :: key_config where
  "plan_key_config =
     [(''sku'', ''SellerSKU'', True, PNone),
      (''quantity'', ''Quantity'', True, PNone),
      (''quantity_in_case'', ''QuantityInCase'', False, PNone),
      (''asin'', ''ASIN'', False, PNone),
      (''condition'', ''Condition'', False, PNone)]"

definition other_key_config :: key_config where
  "other_key_config =
     [(''sku'', ''SellerSKU'', True, PNone),
      (''quantity'', ''QuantityShipped'', True, PNone),
      (''quantity_in_case'', ''QuantityInCase'', False, PNone)]"

text \<open>The branch on \<open>operation\<close>: the table and the remote name of the quantity.\<close>

definition item_key_config :: "string \<Rightarrow> key_config" where
  "item_key_config operation =
     (if operation = ''CreateInboundShipmentPlan'' then plan_key_config else other_key_config)"

definition quantity_key :: "string \<Rightarrow> string" where
  "quantity_key operation =
     (if operation = ''CreateInboundShipmentPlan'' then ''Quantity'' else ''QuantityShipped'')"

definition required_keys :: "key_config \<Rightarrow> string list" where
  "required_keys kc = map c0 (filter c2 kc)"

definition optional_keys :: "key_config \<Rightarrow> string list" where
  "optional_keys kc = map c0 (filter (\<lambda>c. \<not> c2 c) kc)"

definition missing_keys_message :: "string \<Rightarrow> key_config \<Rightarrow> string" where
  "missing_keys_message what kc =
     ''`'' @ what @ ''` dict missing required keys: '' @ join '', '' (required_keys kc) @ ''.''
       @ [CHR 0x0A] @ ''- Optional keys: '' @ join '', '' (optional_keys kc) @ ''.''"

text \<open>\<^verbatim>\<open>str(x)\<close> if \<open>x\<close> is not \<^verbatim>\<open>None\<close>, else \<^verbatim>\<open>None\<close> (lines 71 to 77).\<close>

definition str_or_none :: "pyval \<Rightarrow> pyval" where
  "str_or_none v = (if v \<noteq> PNone then PStr (py_str v) else PNone)"

text \<open>The body of the loop for one item that passed the two checks (lines 71 to 88).\<close>

definition item_dict :: "key_config \<Rightarrow> string \<Rightarrow> pydict \<Rightarrow> pydict" where
  "item_dict kc qkey item =
     (let quantity = str_or_none (dict_get item ''quantity'' PNone);
          quantity_in_case = str_or_none (dict_get item ''quantity_in_case'' PNone);
          d = dict_of [(''SellerSKU'', dict_get item ''sku'' PNone),
                       (qkey, quantity),
                       (''QuantityInCase'', quantity_in_case)]
      in dict_update d
           (dict_of (map (\<lambda>c. (c1 c, dict_get item (c0 c) (c3 c)))
              (filter (\<lambda>c. c0 c \<notin> set [''sku'', ''quantity'', ''quantity_in_case'']) kc))))"

text \<open>The loop over \<open>item_args\<close>, with the list \<open>items\<close> built so far.\<close>

fun parse_items :: "key_config \<Rightarrow> string \<Rightarrow> pyobj list \<Rightarrow> pydict list \<Rightarrow> error + pydict list" where
  "parse_items kc qkey [] items = Inr items"
| "parse_items kc qkey (item # rest) items =
     (case item of
        Scalar v \<Rightarrow> Inl (MWSError ''`item` argument must be a dict.'')
      | Dict d \<Rightarrow>
          if \<not> list_all (dict_has d) (required_keys kc)
          then Inl (MWSError (missing_keys_message ''item'' kc))
          else parse_items kc qkey rest (items @ [item_dict kc qkey d]))"

text \<open>
  \<open>item_args\<close> is \<open>None\<close> for Python's \<^verbatim>\<open>None\<close> and \<open>Some xs\<close> for a list; both
  \<^verbatim>\<open>None\<close> and the empty list are falsy.
\<close>

definition parse_item_args :: "pyobj list option \<Rightarrow> string \<Rightarrow> error + pydict list" where
  "parse_item_args item_args operation =
     (case item_args of
        None \<Rightarrow> Inl (MWSError ''One or more `item` dict arguments required.'')
      | Some xs \<Rightarrow>
          if xs = [] then Inl (MWSError ''One or more `item` dict arguments required.'')
          else parse_items (item_key_config operation) (quantity_key operation) xs [])"

section \<open>Helpers of the repository that the two modules import\<close>

text \<open>
  Modelled from the spec: \<^verbatim>\<open>utils.enumerate_keyed_param\<close> (module \<^verbatim>\<open>mws/utils.py\<close>) is not
  among the sources. The specification describes it as the helper that "turns a list of
  dicts into \<^verbatim>\<open>prefix.<n>.<Field>\<close> entries", with "enumerated keys starting at index 1";
  the item blocks it produces are named \<^verbatim>\<open>InboundShipmentItems.member.<n>.<Field>\<close> for the
  prefix \<^verbatim>\<open>InboundShipmentItems.member\<close> that the source passes. First the entries of
  one dictionary \<open>snd nd\<close> under its index \<open>fst nd\<close>.
\<close>

definition keyed_entries :: "string \<Rightarrow> nat \<times> pydict \<Rightarrow> (string \<times> pyval) list" where
  "keyed_entries pfx nd =
     map (\<lambda>(k, v). (pfx @ ''.'' @ str_nat (fst nd) @ ''.'' @ k, v)) (snd nd)"

text \<open>
  Modelled from the spec: \<^verbatim>\<open>utils.enumerate_keyed_param\<close> itself, which is not among the
  sources: the entries of every dictionary of the list under its index, counted from 1,
  collected into one parameter mapping.
\<close>

definition enumerate_keyed_param :: "string \<Rightarrow> pydict list \<Rightarrow> pydict" where
  "enumerate_keyed_param pfx dicts =
     dict_of (concat (map (keyed_entries pfx) (List.enumerate 1 dicts)))"

text \<open>
  The other parts of the repository that the modelled methods use and that are not
  among the sources are parameters of the model: from \<^verbatim>\<open>mws/utils.py\<close>,
  \<^verbatim>\<open>dt_iso_or_none\<close> on a date argument of some type \<open>'dt\<close>, \<^verbatim>\<open>enumerate_param\<close> on a
  prefix and a sequence, and \<^verbatim>\<open>enumerate_params\<close> on a dictionary from prefixes to
  sequences (or \<^verbatim>\<open>None\<close>); from the shared client, the message of the error for an
  operation that its class does not declare as supporting tokens, given the operation
  name.
\<close>

record 'dt helpers =
  dt_iso_or_none :: "'dt \<Rightarrow> pyval"
  enumerate_param :: "string \<Rightarrow> pyval list \<Rightarrow> pydict"
  enumerate_params :: "(string \<times> pyval list option) list \<Rightarrow> pydict"
  not_listed_message :: "string \<Rightarrow> string"

text \<open>
  \<^verbatim>\<open>self.make_request(data, ...)\<close> belongs to the shared client \<^verbatim>\<open>mws/mws.py\<close>. An
  operation of the model returns the parameter mapping \<open>data\<close> that it hands to
  \<^verbatim>\<open>make_request\<close>: this mapping is the request the operation builds. What
  \<^verbatim>\<open>make_request\<close> does with a parameter whose value is \<^verbatim>\<open>None\<close> is not part of the
  model.
\<close>

text \<open>
  Modelled from the spec: the decorator \<^verbatim>\<open>next_token_action\<close> (module
  \<^verbatim>\<open>mws/decorators.py\<close>) and the part of the shared client behind it are not among the
  sources. The specification: "when a method tagged as paginated is invoked with a
  \<^verbatim>\<open>next_token\<close> argument set, the wrapper bypasses the method's own parameter-building
  logic and instead issues a request with \<^verbatim>\<open>Action=<OperationName>ByNextToken\<close> and
  \<^verbatim>\<open>NextToken=<token>\<close> only -- every other argument to the call is ignored in that
  case. This rule applies to exactly the methods listed as supporting tokens [...] as
  declared per API class". So the wrapper takes the list \<open>declared\<close>, the
  \<^verbatim>\<open>NEXT_TOKEN_OPERATIONS\<close> of the class of the method: for an operation of that list the
  continuation request is built; for any other operation no request is built and the
  call ends in the module's error, \<^verbatim>\<open>MWSError\<close>. The argument \<open>next_token\<close> is the
  keyword argument of the call, \<^verbatim>\<open>None\<close> when it is not set.
\<close>

definition next_token_action ::
  "'dt helpers \<Rightarrow> string list \<Rightarrow> string \<Rightarrow> ('args \<Rightarrow> error + pydict) \<Rightarrow> pyval \<Rightarrow> 'args
     \<Rightarrow> error + pydict" where
  "next_token_action u declared action_name request_func next_token args =
     (if next_token \<noteq> PNone
      then (if action_name \<notin> set declared
            then Inl (MWSError (not_listed_message u action_name))
            else Inr (dict_of [(''Action'', PStr (action_name @ ''ByNextToken'')),
                               (''NextToken'', next_token)]))
      else request_func args)"

section \<open>The class \<^verbatim>\<open>InboundShipments\<close>\<close>

text \<open>
  The state of a client that the modelled methods read and write: the attribute
  \<^verbatim>\<open>from_address\<close>, which holds a dictionary or \<^verbatim>\<open>None\<close>.
\<close>

record client =
  from_address :: "pydict option"

definition InboundShipments_NEXT_TOKEN_OPERATIONS :: "string list" where
  "InboundShipments_NEXT_TOKEN_OPERATIONS = [''ListInboundShipments'', ''ListInboundShipmentItems'']"

definition SHIPMENT_STATUSES :: "pyval list" where
  "SHIPMENT_STATUSES = [PStr ''WORKING'', PStr ''SHIPPED'', PStr ''CANCELLED'']"

definition DEFAULT_SHIP_STATUS :: pyval where
  "DEFAULT_SHIP_STATUS = PStr ''WORKING''"

definition LABEL_PREFERENCES :: "pyval list" where
  "LABEL_PREFERENCES = [PStr ''SELLER_LABEL'', PStr ''AMAZON_LABEL_ONLY'', PStr ''AMAZON_LABEL_PREFERRED'']"

text \<open>\<^verbatim>\<open>if not self.from_address\<close>: \<^verbatim>\<open>None\<close> and the empty dictionary are falsy.\<close>

fun address_is_set :: "pydict option \<Rightarrow> bool" where
  "address_is_set None = False"
| "address_is_set (Some d) = (d \<noteq> [])"

text \<open>\<^verbatim>\<open>if not items\<close> on the \<open>items\<close> argument.\<close>

fun truthy_items :: "pyobj list option \<Rightarrow> bool" where
  "truthy_items None = False"
| "truthy_items (Some xs) = (xs \<noteq> [])"

text \<open>\<^verbatim>\<open>x or None\<close>.\<close>

definition or_none :: "pyval \<Rightarrow> pyval" where
  "or_none x = (if truthy x then x else PNone)"

definition address_key_config :: key_config where
  "address_key_config =
     [(''name'', ''Name'', True, PNone),
      (''address_1'', ''AddressLine1'', True, PNone),
      (''address_2'', ''AddressLine2'', False, PNone),
      (''city'', ''City'', True, PNone),
      (''district_or_county'', ''DistrictOrCounty'', False, PNone),
      (''state_or_province'', ''StateOrProvinceCode'', False, PNone),
      (''postal_code'', ''PostalCode'', False, PNone),
      (''country'', ''CountryCode'', False, PStr ''US'')]"

text \<open>
  \<^verbatim>\<open>set_ship_from_address(self, address)\<close>. The result is the pair of what the call
  returns or raises and the client as the call leaves it. The method has no
  \<^verbatim>\<open>return\<close> statement: on success it returns \<^verbatim>\<open>None\<close>.
\<close>

definition set_ship_from_address :: "pyobj \<Rightarrow> client \<Rightarrow> (error + pydict option) \<times> client" where
  "set_ship_from_address address self =
     (let self = self\<lparr>from_address := None\<rparr> in
      if \<not> truthy_obj address then (Inl (MWSError ''Missing required `address` dict.''), self)
      else case address of
        Scalar v \<Rightarrow> (Inl (MWSError ''`address` must be a dict''), self)
      | Dict a \<Rightarrow>
          if \<not> list_all (dict_has a) (required_keys address_key_config)
          then (Inl (MWSError (missing_keys_message ''address'' address_key_config)), self)
          else let addr = dict_of (map (\<lambda>c. (''ShipFromAddress.'' @ c1 c, dict_get a (c0 c) (c3 c)))
                                     address_key_config)
               in (Inr None, self\<lparr>from_address := Some addr\<rparr>))"

text \<open>
  \<^verbatim>\<open>__init__(self, *args, **kwargs)\<close>, as far as \<^verbatim>\<open>from_address\<close> goes: \<open>addr\<close> is the
  keyword argument \<^verbatim>\<open>from_address\<close>, \<^verbatim>\<open>None\<close> when it is left out. The constructor of
  the base class \<^verbatim>\<open>MWS\<close>, which runs last, is not among the sources and does not appear.
\<close>

definition InboundShipments_init :: "pyobj \<Rightarrow> error + client" where
  "InboundShipments_init addr =
     (let self = \<lparr>from_address = Some []\<rparr> in
      if addr \<noteq> Scalar PNone
      then (case set_ship_from_address addr self of
              (Inl e, self') \<Rightarrow> Inl e
            | (Inr returned, self') \<Rightarrow> Inr (self'\<lparr>from_address := returned\<rparr>))
      else Inr self)"

definition address_not_set :: error where
  "address_not_set =
     MWSError ''ShipFromAddress has not been set. Please use `.set_ship_from_address()` first.''"

definition items_required :: error where
  "items_required = MWSError ''One or more `item` dict arguments required.''"

definition create_inbound_shipment_plan ::
  "client \<Rightarrow> pyobj list option \<Rightarrow> pyval \<Rightarrow> pyval \<Rightarrow> pyval \<Rightarrow> error + pydict" where
  "create_inbound_shipment_plan self items country_code subdivision_code label_preference =
     (if \<not> truthy_items items then Inl items_required
      else
        let subdivision_code = or_none subdivision_code;
            label_preference = or_none label_preference
        in case parse_item_args items ''CreateInboundShipmentPlan'' of
             Inl e \<Rightarrow> Inl e
           | Inr items \<Rightarrow>
               if \<not> address_is_set (from_address self) then Inl address_not_set
               else
                 let data = dict_of
                       [(''Action'', PStr ''CreateInboundShipmentPlan''),
                        (''ShipToCountryCode'', country_code),
                        (''ShipToCountrySubdivisionCode'', subdivision_code),
                        (''LabelPrepPreference'', label_preference)];
                     data = dict_update data (the (from_address self));
                     data = dict_update data
                       (enumerate_keyed_param ''InboundShipmentPlanRequestItems.member'' items)
                 in Inr data)"

text \<open>\<^verbatim>\<open>{'InboundShipmentHeader.{}'.format(k): v for k, v in from_address.items()}\<close>.\<close>

definition header_address :: "pydict \<Rightarrow> pydict" where
  "header_address fa = dict_of (map (\<lambda>(k, v). (''InboundShipmentHeader.'' @ k, v)) fa)"

text \<open>The dictionary display that both \<^verbatim>\<open>create\<close> and \<^verbatim>\<open>update\<close> write out, key for key.\<close>

definition shipment_data ::
  "string \<Rightarrow> pyval \<Rightarrow> pyval \<Rightarrow> pyval \<Rightarrow> pyval \<Rightarrow> pyval \<Rightarrow> pyval \<Rightarrow> pyval \<Rightarrow> pydict" where
  "shipment_data action shipment_id shipment_name destination label_preference case_required
      shipment_status box_contents_source =
     dict_of
       [(''Action'', PStr action),
        (''ShipmentId'', shipment_id),
        (''InboundShipmentHeader.ShipmentName'', shipment_name),
        (''InboundShipmentHeader.DestinationFulfillmentCenterId'', destination),
        (''InboundShipmentHeader.LabelPrepPreference'', label_preference),
        (''InboundShipmentHeader.AreCasesRequired'', case_required),
        (''InboundShipmentHeader.ShipmentStatus'', shipment_status),
        (''InboundShipmentHeader.IntendedBoxContentsSource'', box_contents_source)]"

definition create_inbound_shipment ::
  "client \<Rightarrow> pyval \<Rightarrow> pyval \<Rightarrow> pyval \<Rightarrow> pyobj list option \<Rightarrow> pyval \<Rightarrow> pyval \<Rightarrow> pyval \<Rightarrow> pyval
     \<Rightarrow> error + pydict" where
  "create_inbound_shipment self shipment_id shipment_name destination items shipment_status
      label_preference case_required box_contents_source =
     (if \<not> is_str shipment_id then Inl (AssertionError ''`shipment_id` must be a string.'')
      else if \<not> is_str shipment_name then Inl (AssertionError ''`shipment_name` must be a string.'')
      else if \<not> is_str destination then Inl (AssertionError ''`destination` must be a string.'')
      else if \<not> truthy_items items then Inl items_required
      else case parse_item_args items ''CreateInboundShipment'' of
        Inl e \<Rightarrow> Inl e
      | Inr items \<Rightarrow>
          if \<not> address_is_set (from_address self) then Inl address_not_set
          else
            let from_address' = header_address (the (from_address self));
                shipment_status =
                  (if shipment_status \<notin> set SHIPMENT_STATUSES then DEFAULT_SHIP_STATUS
                   else shipment_status);
                label_preference =
                  (if label_preference \<notin> set LABEL_PREFERENCES then PNone else label_preference);
                case_required = (if truthy case_required then PStr ''true'' else PStr ''false'');
                data = shipment_data ''CreateInboundShipment'' shipment_id shipment_name destination
                         label_preference case_required shipment_status box_contents_source;
                data = dict_update data from_address';
                data = dict_update data (enumerate_keyed_param ''InboundShipmentItems.member'' items)
            in Inr data)"

definition update_inbound_shipment ::
  "client \<Rightarrow> pyval \<Rightarrow> pyval \<Rightarrow> pyval \<Rightarrow> pyobj list option \<Rightarrow> pyval \<Rightarrow> pyval \<Rightarrow> pyval \<Rightarrow> pyval
     \<Rightarrow> error + pydict" where
  "update_inbound_shipment self shipment_id shipment_name destination items shipment_status
      label_preference case_required box_contents_source =
     (if \<not> is_str shipment_id then Inl (AssertionError ''`shipment_id` must be a string.'')
      else if \<not> is_str shipment_name then Inl (AssertionError ''`shipment_name` must be a string.'')
      else if \<not> is_str destination then Inl (AssertionError ''`destination` must be a string.'')
      else case (if truthy_items items
                 then (case parse_item_args items ''UpdateInboundShipment'' of
                         Inl e \<Rightarrow> Inl e | Inr parsed \<Rightarrow> Inr (Some parsed))
                 else Inr None) of
        Inl e \<Rightarrow> Inl e
      | Inr items \<Rightarrow>
          if \<not> address_is_set (from_address self) then Inl address_not_set
          else
            let from_address' = header_address (the (from_address self));
                shipment_status =
                  (if shipment_status \<notin> set SHIPMENT_STATUSES then PNone else shipment_status);
                label_preference =
                  (if label_preference \<notin> set LABEL_PREFERENCES then PNone else label_preference);
                case_required = (if truthy case_required then PStr ''true'' else PStr ''false'');
                data = shipment_data ''UpdateInboundShipment'' shipment_id shipment_name destination
                         label_preference case_required shipment_status box_contents_source;
                data = dict_update data from_address'
            in (case items of
                  None \<Rightarrow> Inr data
                | Some parsed \<Rightarrow>
                    if parsed \<noteq> []
                    then Inr (dict_update data
                                (enumerate_keyed_param ''InboundShipmentItems.member'' parsed))
                    else Inr data))"

text \<open>The bodies of the two decorated methods, and the methods as the decorator leaves them.\<close>

definition list_inbound_shipments_body ::
  "'dt helpers \<Rightarrow> pyval list option \<times> pyval list option \<times> 'dt \<times> 'dt \<Rightarrow> error + pydict" where
  "list_inbound_shipments_body u args =
     (case args of (shipment_ids, shipment_statuses, last_updated_after, last_updated_before) \<Rightarrow>
        let last_updated_after = dt_iso_or_none u last_updated_after;
            last_updated_before = dt_iso_or_none u last_updated_before;
            data = dict_of
              [(''Action'', PStr ''ListInboundShipments''),
               (''LastUpdatedAfter'', last_updated_after),
               (''LastUpdatedBefore'', last_updated_before)];
            data = dict_update data (enumerate_params u
              [(''ShipmentStatusList.member.'', shipment_statuses),
               (''ShipmentIdList.member.'', shipment_ids)])
        in Inr data)"

definition list_inbound_shipments ::
  "'dt helpers \<Rightarrow> pyval \<Rightarrow> pyval list option \<times> pyval list option \<times> 'dt \<times> 'dt \<Rightarrow> error + pydict" where
  "list_inbound_shipments u =
     next_token_action u InboundShipments_NEXT_TOKEN_OPERATIONS ''ListInboundShipments''
       (list_inbound_shipments_body u)"

definition list_inbound_shipment_items_body ::
  "'dt helpers \<Rightarrow> pyval \<times> 'dt \<times> 'dt \<Rightarrow> error + pydict" where
  "list_inbound_shipment_items_body u args =
     (case args of (shipment_id, last_updated_after, last_updated_before) \<Rightarrow>
        let last_updated_after = dt_iso_or_none u last_updated_after;
            last_updated_before = dt_iso_or_none u last_updated_before;
            data = dict_of
              [(''Action'', PStr ''ListInboundShipmentItems''),
               (''ShipmentId'', shipment_id),
               (''LastUpdatedAfter'', last_updated_after),
               (''LastUpdatedBefore'', last_updated_before)]
        in Inr data)"

definition list_inbound_shipment_items ::
  "'dt helpers \<Rightarrow> pyval \<Rightarrow> pyval \<times> 'dt \<times> 'dt \<Rightarrow> error + pydict" where
  "list_inbound_shipment_items u =
     next_token_action u InboundShipments_NEXT_TOKEN_OPERATIONS ''ListInboundShipmentItems''
       (list_inbound_shipment_items_body u)"

section \<open>The class \<^verbatim>\<open>Reports\<close>\<close>

definition Reports_NEXT_TOKEN_OPERATIONS :: "string list" where
  "Reports_NEXT_TOKEN_OPERATIONS = [''GetReportRequestList'', ''GetReportScheduleList'']"

text \<open>
  The bodies of \<^verbatim>\<open>get_report_list\<close> and \<^verbatim>\<open>get_report_request_list\<close> have a last
  parameter \<^verbatim>\<open>next_token\<close> of their own, which they never read; the decorator sees the
  keyword argument only.
\<close>

definition get_report_list_body ::
  "'dt helpers \<Rightarrow> pyval list \<times> pyval \<times> pyval list \<times> pyval \<times> pyval \<times> pyval \<times> pyval
     \<Rightarrow> error + pydict" where
  "get_report_list_body u args =
     (case args of (requestids, max_count, types, acknowledged, fromdate, todate, next_token) \<Rightarrow>
        let data = dict_of
              [(''Action'', PStr ''GetReportList''),
               (''Acknowledged'', acknowledged),
               (''AvailableFromDate'', fromdate),
               (''AvailableToDate'', todate),
               (''MaxCount'', max_count)];
            data = dict_update data (enumerate_param u ''ReportRequestIdList.Id.'' requestids);
            data = dict_update data (enumerate_param u ''ReportTypeList.Type.'' types)
        in Inr data)"

definition get_report_list ::
  "'dt helpers \<Rightarrow> pyval \<Rightarrow> pyval list \<times> pyval \<times> pyval list \<times> pyval \<times> pyval \<times> pyval \<times> pyval
     \<Rightarrow> error + pydict" where
  "get_report_list u =
     next_token_action u Reports_NEXT_TOKEN_OPERATIONS ''GetReportList'' (get_report_list_body u)"

definition get_report_request_list_body ::
  "'dt helpers \<Rightarrow> pyval list \<times> pyval list \<times> pyval list \<times> pyval \<times> pyval \<times> pyval \<times> pyval
     \<Rightarrow> error + pydict" where
  "get_report_request_list_body u args =
     (case args of
        (requestids, types, processingstatuses, max_count, fromdate, todate, next_token) \<Rightarrow>
        let data = dict_of
              [(''Action'', PStr ''GetReportRequestList''),
               (''MaxCount'', max_count),
               (''RequestedFromDate'', fromdate),
               (''RequestedToDate'', todate)];
            data = dict_update data (enumerate_param u ''ReportRequestIdList.Id.'' requestids);
            data = dict_update data (enumerate_param u ''ReportTypeList.Type.'' types);
            data = dict_update data
              (enumerate_param u ''ReportProcessingStatusList.Status.'' processingstatuses)
        in Inr data)"

definition get_report_request_list ::
  "'dt helpers \<Rightarrow> pyval \<Rightarrow> pyval list \<times> pyval list \<times> pyval list \<times> pyval \<times> pyval \<times> pyval
       \<times> pyval
     \<Rightarrow> error + pydict" where
  "get_report_request_list u =
     next_token_action u Reports_NEXT_TOKEN_OPERATIONS ''GetReportRequestList''
       (get_report_request_list_body u)"

definition get_report_schedule_list :: "'dt helpers \<Rightarrow> pyval list \<Rightarrow> error + pydict" where
  "get_report_schedule_list u types =
     (let data = dict_of [(''Action'', PStr ''GetReportScheduleList'')];
          data = dict_update data (enumerate_param u ''ReportTypeList.Type.'' types)
      in Inr data)"

text \<open>
  The methods of each class with the action name of the request they build and, for a
  method under \<^verbatim>\<open>@next_token_action(name)\<close>, the name given to the decorator.
\<close>

definition Reports_methods :: "(string \<times> string \<times> string option) list" where
  "Reports_methods =
     [(''get_report'', ''GetReport'', None),
      (''get_report_count'', ''GetReportCount'', None),
      (''get_report_list'', ''GetReportList'', Some ''GetReportList''),
      (''get_report_request_count'', ''GetReportRequestCount'', None),
      (''get_report_request_list'', ''GetReportRequestList'', Some ''GetReportRequestList''),
      (''request_report'', ''RequestReport'', None),
      (''get_report_schedule_list'', ''GetReportScheduleList'', None),
      (''get_report_schedule_count'', ''GetReportScheduleCount'', None)]"

definition InboundShipments_methods :: "(string \<times> string \<times> string option) list" where
  "InboundShipments_methods =
     [(''create_inbound_shipment_plan'', ''CreateInboundShipmentPlan'', None),
      (''create_inbound_shipment'', ''CreateInboundShipment'', None),
      (''update_inbound_shipment'', ''UpdateInboundShipment'', None),
      (''get_prep_instructions_for_sku'', ''GetPrepInstructionsForSKU'', None),
      (''get_prep_instructions_for_asin'', ''GetPrepInstructionsForASIN'', None),
      (''get_package_labels'', ''GetPackageLabels'', None),
      (''get_transport_content'', ''GetTransportContent'', None),
      (''estimate_transport_request'', ''EstimateTransportRequest'', None),
      (''void_transport_request'', ''VoidTransportRequest'', None),
      (''get_bill_of_lading'', ''GetBillOfLading'', None),
      (''list_inbound_shipments'', ''ListInboundShipments'', Some ''ListInboundShipments''),
      (''list_inbound_shipment_items'', ''ListInboundShipmentItems'',
         Some ''ListInboundShipmentItems'')]"

text \<open>The action names of the methods of a class that carry the decorator.\<close>

definition wrapped_actions :: "(string \<times> string \<times> string option) list \<Rightarrow> string list" where
  "wrapped_actions methods = map (\<lambda>m. fst (snd m)) (filter (\<lambda>m. snd (snd m) \<noteq> None) methods)"

section \<open>Auxiliary definitions for the proofs\<close>

text \<open>Reading a decimal numeral back, the inverse of \<^const>\<open>str_nat\<close>.\<close>

definition digit_val :: "char \<Rightarrow> nat" where
  "digit_val c = of_char c - 48"

definition nat_of_digits :: "string \<Rightarrow> nat" where
  "nat_of_digits s = foldl (\<lambda>a c. 10 * a + digit_val c) 0 s"

text \<open>
  The dictionary that a successful \<^const>\<open>set_ship_from_address\<close> stores for the
  address \<open>a\<close>, written out entry by entry.
\<close>

definition stored_address :: "pydict \<Rightarrow> pydict" where
  "stored_address a =
     [(''ShipFromAddress.Name'', dict_get a ''name'' PNone),
      (''ShipFromAddress.AddressLine1'', dict_get a ''address_1'' PNone),
      (''ShipFromAddress.AddressLine2'', dict_get a ''address_2'' PNone),
      (''ShipFromAddress.City'', dict_get a ''city'' PNone),
      (''ShipFromAddress.DistrictOrCounty'', dict_get a ''district_or_county'' PNone),
      (''ShipFromAddress.StateOrProvinceCode'', dict_get a ''state_or_province'' PNone),
      (''ShipFromAddress.PostalCode'', dict_get a ''postal_code'' PNone),
      (''ShipFromAddress.CountryCode'', dict_get a ''country'' (PStr ''US''))]"

text \<open>
  The key \<^verbatim>\<open>prefix.<n>.<Field>\<close> of an enumerated entry, and the entries of a list of
  dictionaries numbered from \<open>n\<close> on, before they are stored into a dictionary.
\<close>

definition member_key :: "string \<Rightarrow> nat \<Rightarrow> string \<Rightarrow> string" where
  "member_key pfx n f = pfx @ ''.'' @ str_nat n @ ''.'' @ f"

definition entries_from :: "string \<Rightarrow> nat \<Rightarrow> pydict list \<Rightarrow> (string \<times> pyval) list" where
  "entries_from pfx n dicts = concat (map (keyed_entries pfx) (List.enumerate n dicts))"

text \<open>
  The request of \<^verbatim>\<open>create_inbound_shipment\<close> and \<^verbatim>\<open>update_inbound_shipment\<close> before the
  item block is added, for the shipment status \<open>st\<close> that the method settled on.
\<close>

definition shipment_base ::
  "string \<Rightarrow> client \<Rightarrow> pyval \<Rightarrow> pyval \<Rightarrow> pyval \<Rightarrow> pyval \<Rightarrow> pyval \<Rightarrow> pyval \<Rightarrow> pyval \<Rightarrow> pydict" where
  "shipment_base action self sid nm dst st lp cr bcs =
     dict_update
       (shipment_data action sid nm dst
          (if lp \<notin> set LABEL_PREFERENCES then PNone else lp)
          (if truthy cr then PStr ''true'' else PStr ''false'') st bcs)
       (header_address (the (from_address self)))"

section \<open>Dictionaries\<close>


lemma map_of_dict_update: "map_of (dict_update d other) = map_of d ++ map_of (rev other)"
  unfolding dict_update_def
proof (induction other arbitrary: d)
  case Nil
  show ?case by simp
next
  case (Cons x xs)
  obtain k v where x: "x = (k, v)" by (cases x)
  have "map_of (fold (\<lambda>(k, v). AList.update k v) (x # xs) d)
        = map_of (AList.update k v d) ++ map_of (rev xs)"
    using Cons.IH [of "AList.update k v d"] by (simp add: x)
  also have "\<dots> = map_of d ++ map_of (rev (x # xs))"
    by (simp add: x update_conv' map_add_upd_left)
  finally show ?case .
qed

lemma keys_dict_update: "fst ` set (dict_update d other) = fst ` set d \<union> fst ` set other"
proof -
  have "dom (map_of (dict_update d other)) = dom (map_of d) \<union> dom (map_of (rev other))"
    by (simp add: map_of_dict_update Un_commute)
  then show ?thesis by (simp add: dom_map_of_conv_image_fst)
qed

lemma map_of_dict_of: "map_of (dict_of kvs) = map_of (rev kvs)"
  by (simp add: dict_of_def map_of_dict_update)

lemma keys_dict_of: "fst ` set (dict_of kvs) = fst ` set kvs"
  by (simp add: dict_of_def keys_dict_update)

lemma distinct_dict_update:
  "distinct (map fst d) \<Longrightarrow> distinct (map fst (dict_update d other))"
  unfolding dict_update_def
  by (induction other arbitrary: d) (auto simp: distinct_update)

lemma distinct_dict_of: "distinct (map fst (dict_of kvs))"
  by (simp add: dict_of_def distinct_dict_update)

lemma map_of_rev_distinct: "distinct (map fst xs) \<Longrightarrow> map_of (rev xs) = map_of xs"
  by (rule map_of_inject_set[THEN iffD2]) (simp_all add: rev_map[symmetric])

lemma parse_items_ok:
  "\<forall>d \<in> set ds. list_all (dict_has d) (required_keys kc) \<Longrightarrow>
   parse_items kc qkey (map Dict ds) acc = Inr (acc @ map (item_dict kc qkey) ds)"
  by (induction ds arbitrary: acc) simp_all

lemma parse_items_Inr:
  "parse_items kc qkey xs acc = Inr out \<Longrightarrow>
   \<exists>ds. xs = map Dict ds \<and> (\<forall>d \<in> set ds. list_all (dict_has d) (required_keys kc))
        \<and> out = acc @ map (item_dict kc qkey) ds"
proof (induction xs arbitrary: acc)
  case Nil
  then show ?case by simp
next
  case (Cons x xs)
  then obtain d where d: "x = Dict d" "list_all (dict_has d) (required_keys kc)"
      and rest: "parse_items kc qkey xs (acc @ [item_dict kc qkey d]) = Inr out"
    by (cases x) (auto split: if_splits)
  from Cons.IH [OF rest] obtain ds where
    "xs = map Dict ds" "\<forall>d \<in> set ds. list_all (dict_has d) (required_keys kc)"
    "out = (acc @ [item_dict kc qkey d]) @ map (item_dict kc qkey) ds" by blast
  with d have "x # xs = map Dict (d # ds) \<and> (\<forall>d \<in> set (d # ds). list_all (dict_has d) (required_keys kc))
     \<and> out = acc @ map (item_dict kc qkey) (d # ds)" by simp
  then show ?case by (rule exI [of _ "d # ds"])
qed


lemmas cfg_defs = item_key_config_def quantity_key_def plan_key_config_def other_key_config_def
  required_keys_def optional_keys_def c0_def c1_def c2_def c3_def

lemma item_dict_plan:
  "item_dict (item_key_config ''CreateInboundShipmentPlan'') (quantity_key ''CreateInboundShipmentPlan'') item =
     [(''SellerSKU'', dict_get item ''sku'' PNone),
      (''Quantity'', str_or_none (dict_get item ''quantity'' PNone)),
      (''QuantityInCase'', str_or_none (dict_get item ''quantity_in_case'' PNone)),
      (''ASIN'', dict_get item ''asin'' PNone),
      (''Condition'', dict_get item ''condition'' PNone)]"
  by (simp add: item_dict_def cfg_defs dict_of_def dict_update_def)

lemma item_dict_other:
  "operation \<noteq> ''CreateInboundShipmentPlan'' \<Longrightarrow>
   item_dict (item_key_config operation) (quantity_key operation) item =
     [(''SellerSKU'', dict_get item ''sku'' PNone),
      (''QuantityShipped'', str_or_none (dict_get item ''quantity'' PNone)),
      (''QuantityInCase'', str_or_none (dict_get item ''quantity_in_case'' PNone))]"
  by (simp add: item_dict_def cfg_defs dict_of_def dict_update_def)

lemma required_item_keys: "required_keys (item_key_config operation) = [''sku'', ''quantity'']"
  by (simp add: cfg_defs)

lemma parse_item_args_ok:
  assumes "ds \<noteq> []" and "\<forall>d \<in> set ds. dict_has d ''sku'' \<and> dict_has d ''quantity''"
  shows "parse_item_args (Some (map Dict ds)) operation =
           Inr (map (item_dict (item_key_config operation) (quantity_key operation)) ds)"
  using assms parse_items_ok [of ds "item_key_config operation" "quantity_key operation" "[]"]
  by (simp add: parse_item_args_def required_item_keys)

lemma parse_item_args_Inr:
  assumes "parse_item_args items operation = Inr out"
  shows "\<exists>ds. items = Some (map Dict ds) \<and> ds \<noteq> []
           \<and> (\<forall>d \<in> set ds. dict_has d ''sku'' \<and> dict_has d ''quantity'')
           \<and> out = map (item_dict (item_key_config operation) (quantity_key operation)) ds"
proof -
  from assms obtain xs where xs: "items = Some xs" "xs \<noteq> []"
      and p: "parse_items (item_key_config operation) (quantity_key operation) xs [] = Inr out"
    by (auto simp: parse_item_args_def split: option.splits if_splits)
  from parse_items_Inr [OF p] obtain ds where ds: "xs = map Dict ds"
      "\<forall>d \<in> set ds. list_all (dict_has d) (required_keys (item_key_config operation))"
      "out = map (item_dict (item_key_config operation) (quantity_key operation)) ds"
    by auto
  with xs have "items = Some (map Dict ds) \<and> ds \<noteq> []
           \<and> (\<forall>d \<in> set ds. dict_has d ''sku'' \<and> dict_has d ''quantity'')
           \<and> out = map (item_dict (item_key_config operation) (quantity_key operation)) ds"
    by (auto simp: required_item_keys)
  then show ?thesis by (rule exI [of _ ds])
qed

section \<open>Decimal numerals and enumerated keys\<close>

lemma digit_cases:
  "d < 10 \<Longrightarrow> d = 0 \<or> d = 1 \<or> d = 2 \<or> d = 3 \<or> d = 4 \<or> d = 5 \<or> d = 6 \<or> d = 7 \<or> d = 8 \<or> d = (9::nat)"
  by arith

lemma digit_val_digit_char: "d < 10 \<Longrightarrow> digit_val (digit_char d) = d"
  by (drule digit_cases) (auto simp: digit_val_def digit_char_def)

lemma digit_char_not_dot: "d < 10 \<Longrightarrow> digit_char d \<noteq> CHR ''.''"
  by (drule digit_cases) (auto simp: digit_char_def)

lemma nat_of_digits_str_nat: "nat_of_digits (str_nat n) = n"
proof (induction n rule: str_nat.induct)
  case (1 n)
  show ?case
  proof (cases "n < 10")
    case True
    then show ?thesis
      by (subst str_nat.simps) (simp add: nat_of_digits_def digit_val_digit_char)
  next
    case False
    with 1 have "nat_of_digits (str_nat (n div 10)) = n div 10" by simp
    with False show ?thesis
      by (subst str_nat.simps) (simp add: nat_of_digits_def digit_val_digit_char)
  qed
qed

lemma str_nat_inj: "str_nat n = str_nat m \<Longrightarrow> n = m"
  by (metis nat_of_digits_str_nat)

lemma str_nat_no_dot: "CHR ''.'' \<notin> set (str_nat n)"
proof (induction n rule: str_nat.induct)
  case (1 n)
  show ?case
  proof (cases "n < 10")
    case True
    then show ?thesis
      using digit_char_not_dot [of n] by (subst str_nat.simps) auto
  next
    case False
    with 1 have "CHR ''.'' \<notin> set (str_nat (n div 10))" by simp
    with False show ?thesis
      using digit_char_not_dot [of "n mod 10"] by (subst str_nat.simps) auto
  qed
qed

lemma split_at_first:
  assumes "c \<notin> set xs" "c \<notin> set ys" "xs @ c # f = ys @ c # g"
  shows "xs = ys \<and> f = g"
proof -
  have "takeWhile (\<lambda>x. x \<noteq> c) (xs @ c # f) = xs" "dropWhile (\<lambda>x. x \<noteq> c) (xs @ c # f) = c # f"
    using assms(1) by (auto simp: takeWhile_tail dropWhile_append3)
  moreover have "takeWhile (\<lambda>x. x \<noteq> c) (ys @ c # g) = ys" "dropWhile (\<lambda>x. x \<noteq> c) (ys @ c # g) = c # g"
    using assms(2) by (auto simp: takeWhile_tail dropWhile_append3)
  ultimately show ?thesis using assms(3) by simp
qed

lemma member_key_inj:
  assumes "pfx @ ''.'' @ str_nat n @ ''.'' @ f = pfx @ ''.'' @ str_nat m @ ''.'' @ g"
  shows "n = m \<and> f = g"
proof -
  from assms have "str_nat n @ CHR ''.'' # f = str_nat m @ CHR ''.'' # g" by simp
  from split_at_first [OF str_nat_no_dot str_nat_no_dot this] show ?thesis
    by (auto dest: str_nat_inj)
qed

section \<open>The item parser\<close>

text \<open>
  Claim C3, as amended. Under the schema of \<^verbatim>\<open>CreateInboundShipmentPlan\<close>, the mapping that
  the parser returns for an item always has the keys \<^verbatim>\<open>ASIN\<close> and \<^verbatim>\<open>Condition\<close>: with the
  item's own value, unchanged, when the item has \<^verbatim>\<open>asin\<close> (\<^verbatim>\<open>condition\<close>), and with
  \<^verbatim>\<open>None\<close> when it lacks it. \<^verbatim>\<open>QuantityInCase\<close> is always present as a key too.
\<close>

theorem plan_items_optional_keys:
  assumes "parse_item_args (Some xs) ''CreateInboundShipmentPlan'' = Inr out"
    and "i < length xs" and "xs ! i = Dict item"
  shows "map_of (out ! i) ''ASIN'' = Some (case map_of item ''asin'' of Some v \<Rightarrow> v | None \<Rightarrow> PNone)
       \<and> map_of (out ! i) ''Condition'' = Some (case map_of item ''condition'' of Some v \<Rightarrow> v | None \<Rightarrow> PNone)
       \<and> map_of (out ! i) ''QuantityInCase'' \<noteq> None"
proof -
  from parse_item_args_Inr [OF assms(1)] obtain ds where ds: "xs = map Dict ds"
    "out = map (item_dict (item_key_config ''CreateInboundShipmentPlan'')
                  (quantity_key ''CreateInboundShipmentPlan'')) ds"
    by auto
  with assms(2,3) have "ds ! i = item" "i < length ds" by auto
  with ds(2) have "out ! i = item_dict (item_key_config ''CreateInboundShipmentPlan'')
                  (quantity_key ''CreateInboundShipmentPlan'') item" by simp
  then show ?thesis
    by (simp add: item_dict_plan dict_get_def split: option.splits)
qed

theorem plan_items_optional_keys_witness:
  "parse_item_args (Some [Dict [(''sku'', PStr ''A''), (''quantity'', PInt 2), (''asin'', PStr ''B00X'')]])
      ''CreateInboundShipmentPlan''
     = Inr [ [(''SellerSKU'', PStr ''A''), (''Quantity'', PStr ''2''), (''QuantityInCase'', PNone),
             (''ASIN'', PStr ''B00X''), (''Condition'', PNone)]]
   \<and> map_of ([ [(''SellerSKU'', PStr ''A''), (''Quantity'', PStr ''2''), (''QuantityInCase'', PNone),
                (''ASIN'', PStr ''B00X''), (''Condition'', PNone)]] ! 0) ''ASIN'' = Some (PStr ''B00X'')
   \<and> map_of ([ [(''SellerSKU'', PStr ''A''), (''Quantity'', PStr ''2''), (''QuantityInCase'', PNone),
                (''ASIN'', PStr ''B00X''), (''Condition'', PNone)]] ! 0) ''Condition'' = Some PNone
   \<and> map_of ([ [(''SellerSKU'', PStr ''A''), (''Quantity'', PStr ''2''), (''QuantityInCase'', PNone),
                (''ASIN'', PStr ''B00X''), (''Condition'', PNone)]] ! 0) ''QuantityInCase'' \<noteq> None"
proof -
  let ?item = "[(''sku'', PStr ''A''), (''quantity'', PInt 2), (''asin'', PStr ''B00X'')]"
  let ?out = "[(''SellerSKU'', PStr ''A''), (''Quantity'', PStr ''2''), (''QuantityInCase'', PNone),
               (''ASIN'', PStr ''B00X''), (''Condition'', PNone)]"
  have h: "parse_item_args (Some [Dict ?item]) ''CreateInboundShipmentPlan'' = Inr [?out]"
    by code_simp
  have i: "(0::nat) < length [Dict ?item]" and x: "[Dict ?item] ! 0 = Dict ?item"
    by simp_all
  from plan_items_optional_keys [OF h i x] h show ?thesis
    by simp
qed

text \<open>
  Claim C3 as it was stated fails: an item without \<^verbatim>\<open>asin\<close> and \<^verbatim>\<open>condition\<close> comes back
  with both keys, each holding \<^verbatim>\<open>None\<close>, exactly as \<^verbatim>\<open>QuantityInCase\<close> does.
\<close>

theorem plan_items_optional_keys_counterexample:
  "\<not> dict_has [(''sku'', PStr ''A''), (''quantity'', PInt 2)] ''asin''
   \<and> \<not> dict_has [(''sku'', PStr ''A''), (''quantity'', PInt 2)] ''condition''
   \<and> parse_item_args (Some [Dict [(''sku'', PStr ''A''), (''quantity'', PInt 2)]])
        ''CreateInboundShipmentPlan''
      = Inr [ [(''SellerSKU'', PStr ''A''), (''Quantity'', PStr ''2''), (''QuantityInCase'', PNone),
              (''ASIN'', PNone), (''Condition'', PNone)]]"
  by code_simp



section \<open>The address setter and the constructor\<close>

lemma required_address_keys:
  "required_keys address_key_config = [''name'', ''address_1'', ''city'']"
  by (simp add: address_key_config_def required_keys_def c0_def c2_def)

lemma address_message:
  "missing_keys_message ''address'' address_key_config =
     ''`address` dict missing required keys: name, address_1, city.'' @ [CHR 0x0A]
     @ ''- Optional keys: address_2, district_or_county, state_or_province, postal_code, country.''"
  by (simp add: missing_keys_message_def address_key_config_def required_keys_def optional_keys_def
      c0_def c2_def)

lemma set_ship_from_address_ok:
  assumes "dict_has a ''name''" "dict_has a ''address_1''" "dict_has a ''city''"
  shows "set_ship_from_address (Dict a) self = (Inr None, self\<lparr>from_address := Some (stored_address a)\<rparr>)"
proof -
  from assms(1) have "a \<noteq> []" by (auto simp: dict_has_def)
  moreover have "dict_of (map (\<lambda>c. (''ShipFromAddress.'' @ c1 c, dict_get a (c0 c) (c3 c))) address_key_config)
      = stored_address a"
    by (simp add: address_key_config_def dict_of_def dict_update_def c0_def c1_def c3_def stored_address_def)
  ultimately show ?thesis
    using assms by (simp add: set_ship_from_address_def Let_def required_address_keys)
qed


lemma set_ship_from_address_Inl:
  assumes "set_ship_from_address address self = (Inl e, self')"
  shows "self' = self\<lparr>from_address := None\<rparr>"
  using assms by (cases address) (auto simp: set_ship_from_address_def Let_def split: if_splits)

lemma init_stores_return_value:
  assumes "dict_has a ''name''" "dict_has a ''address_1''" "dict_has a ''city''"
  shows "InboundShipments_init (Dict a) = Inr \<lparr>from_address = None\<rparr>"
  using set_ship_from_address_ok [OF assms, of "\<lparr>from_address = Some []\<rparr>"]
  by (simp add: InboundShipments_init_def Let_def)

lemma plan_without_address:
  "isl (create_inbound_shipment_plan \<lparr>from_address = None\<rparr> items cc sc lp)"
  "\<not> isl (parse_item_args items ''CreateInboundShipmentPlan'') \<Longrightarrow>
     create_inbound_shipment_plan \<lparr>from_address = None\<rparr> items cc sc lp = Inl address_not_set"
  by (auto simp: create_inbound_shipment_plan_def Let_def parse_item_args_def split: sum.splits option.splits)

lemma create_without_address:
  "isl (create_inbound_shipment \<lparr>from_address = None\<rparr> sid nm dst items st lp cr bcs)"
  "is_str sid \<Longrightarrow> is_str nm \<Longrightarrow> is_str dst \<Longrightarrow>
   \<not> isl (parse_item_args items ''CreateInboundShipment'') \<Longrightarrow>
     create_inbound_shipment \<lparr>from_address = None\<rparr> sid nm dst items st lp cr bcs = Inl address_not_set"
  by (auto simp: create_inbound_shipment_def Let_def parse_item_args_def split: sum.splits option.splits)

lemma update_without_address:
  "isl (update_inbound_shipment \<lparr>from_address = None\<rparr> sid nm dst items st lp cr bcs)"
  "is_str sid \<Longrightarrow> is_str nm \<Longrightarrow> is_str dst \<Longrightarrow>
   \<not> truthy_items items \<or> \<not> isl (parse_item_args items ''UpdateInboundShipment'') \<Longrightarrow>
     update_inbound_shipment \<lparr>from_address = None\<rparr> sid nm dst items st lp cr bcs = Inl address_not_set"
  by (auto simp: update_inbound_shipment_def Let_def parse_item_args_def split: sum.splits option.splits)

text \<open>
  Claim C7, as amended. For every non-empty address dictionary that lacks \<^verbatim>\<open>name\<close>,
  \<^verbatim>\<open>address_1\<close> or \<^verbatim>\<open>city\<close>, the setter raises \<^verbatim>\<open>MWSError\<close> with the message that
  lists the required and the optional keys. For every address dictionary that has the
  three keys it succeeds and stores a mapping whose \<^verbatim>\<open>ShipFromAddress.CountryCode\<close> is
  \<^verbatim>\<open>US\<close> when \<^verbatim>\<open>country\<close> is left out, and the supplied value otherwise.
\<close>

theorem address_setter_required_and_country:
  "(a \<noteq> [] \<and> \<not> (dict_has a ''name'' \<and> dict_has a ''address_1'' \<and> dict_has a ''city'') \<longrightarrow>
      set_ship_from_address (Dict a) self =
        (Inl (MWSError (''`address` dict missing required keys: name, address_1, city.'' @ [CHR 0x0A]
           @ ''- Optional keys: address_2, district_or_county, state_or_province, postal_code, country.'')),
         self\<lparr>from_address := None\<rparr>))
   \<and> (dict_has a ''name'' \<and> dict_has a ''address_1'' \<and> dict_has a ''city'' \<longrightarrow>
      (\<exists>addr. set_ship_from_address (Dict a) self = (Inr None, self\<lparr>from_address := Some addr\<rparr>)
         \<and> map_of addr ''ShipFromAddress.CountryCode''
             = Some (case map_of a ''country'' of None \<Rightarrow> PStr ''US'' | Some v \<Rightarrow> v)))"
proof (intro conjI impI)
  assume "a \<noteq> [] \<and> \<not> (dict_has a ''name'' \<and> dict_has a ''address_1'' \<and> dict_has a ''city'')"
  then show "set_ship_from_address (Dict a) self =
        (Inl (MWSError (''`address` dict missing required keys: name, address_1, city.'' @ [CHR 0x0A]
           @ ''- Optional keys: address_2, district_or_county, state_or_province, postal_code, country.'')),
         self\<lparr>from_address := None\<rparr>)"
    unfolding address_message [symmetric]
    by (auto simp: set_ship_from_address_def Let_def required_address_keys)
next
  assume req: "dict_has a ''name'' \<and> dict_has a ''address_1'' \<and> dict_has a ''city''"
  then have "set_ship_from_address (Dict a) self = (Inr None, self\<lparr>from_address := Some (stored_address a)\<rparr>)"
    by (simp add: set_ship_from_address_ok)
  moreover have "map_of (stored_address a) ''ShipFromAddress.CountryCode''
             = Some (case map_of a ''country'' of None \<Rightarrow> PStr ''US'' | Some v \<Rightarrow> v)"
    by (simp add: stored_address_def dict_get_def)
  ultimately show "\<exists>addr. set_ship_from_address (Dict a) self = (Inr None, self\<lparr>from_address := Some addr\<rparr>)
         \<and> map_of addr ''ShipFromAddress.CountryCode''
             = Some (case map_of a ''country'' of None \<Rightarrow> PStr ''US'' | Some v \<Rightarrow> v)"
    by blast
qed

theorem address_setter_required_and_country_witness:
  "set_ship_from_address (Dict [(''name'', PStr ''N''), (''city'', PStr ''C'')]) \<lparr>from_address = Some []\<rparr>
     = (Inl (MWSError (''`address` dict missing required keys: name, address_1, city.'' @ [CHR 0x0A]
           @ ''- Optional keys: address_2, district_or_county, state_or_province, postal_code, country.'')),
        \<lparr>from_address = None\<rparr>)
   \<and> (\<exists>addr. set_ship_from_address
                (Dict [(''name'', PStr ''N''), (''address_1'', PStr ''1 Main St''), (''city'', PStr ''C''),
                       (''country'', PStr ''DE'')]) \<lparr>from_address = Some []\<rparr>
              = (Inr None, \<lparr>from_address = Some addr\<rparr>)
         \<and> map_of addr ''ShipFromAddress.CountryCode'' = Some (PStr ''DE''))
   \<and> (\<exists>addr. set_ship_from_address
                (Dict [(''name'', PStr ''N''), (''address_1'', PStr ''1 Main St''), (''city'', PStr ''C'')])
                \<lparr>from_address = Some []\<rparr>
              = (Inr None, \<lparr>from_address = Some addr\<rparr>)
         \<and> map_of addr ''ShipFromAddress.CountryCode'' = Some (PStr ''US''))"
  using address_setter_required_and_country
      [of "[(''name'', PStr ''N''), (''city'', PStr ''C'')]" "\<lparr>from_address = Some []\<rparr>"]
    address_setter_required_and_country
      [of "[(''name'', PStr ''N''), (''address_1'', PStr ''1 Main St''), (''city'', PStr ''C''),
            (''country'', PStr ''DE'')]" "\<lparr>from_address = Some []\<rparr>"]
    address_setter_required_and_country
      [of "[(''name'', PStr ''N''), (''address_1'', PStr ''1 Main St''), (''city'', PStr ''C'')]"
          "\<lparr>from_address = Some []\<rparr>"]
  by (simp add: dict_has_def)

text \<open>
  Claim C7 as it was stated fails at the empty dictionary: it lacks all three keys, and
  the setter rejects it at its first check, with a message that lists no key names.
\<close>

theorem address_setter_required_and_country_counterexample:
  "\<not> dict_has [] ''name''
   \<and> set_ship_from_address (Dict []) \<lparr>from_address = Some []\<rparr>
       = (Inl (MWSError ''Missing required `address` dict.''), \<lparr>from_address = None\<rparr>)"
  by (simp add: set_ship_from_address_def dict_has_def Let_def)

text \<open>
  Claim C10. A call of the setter that fails validation (a falsy argument, an argument
  that is not a dictionary, or a dictionary without one of the required keys) raises
  \<^verbatim>\<open>MWSError\<close> and leaves the client with \<^verbatim>\<open>from_address\<close> equal to \<^verbatim>\<open>None\<close>, whatever
  address the client held before.
\<close>

theorem failed_set_clears_address:
  assumes "\<not> truthy_obj address \<or> \<not> is_dict address
           \<or> (address = Dict a \<and> \<not> (dict_has a ''name'' \<and> dict_has a ''address_1'' \<and> dict_has a ''city''))"
  shows "\<exists>msg. set_ship_from_address address self = (Inl (MWSError msg), self\<lparr>from_address := None\<rparr>)"
proof (cases address)
  case (Scalar v)
  then show ?thesis by (simp add: set_ship_from_address_def Let_def)
next
  case (Dict d)
  with assms have "d = [] \<or> \<not> (dict_has d ''name'' \<and> dict_has d ''address_1'' \<and> dict_has d ''city'')"
    by auto
  with Dict show ?thesis
    by (auto simp: set_ship_from_address_def Let_def required_address_keys)
qed

theorem failed_set_clears_address_witness:
  "\<exists>msg. set_ship_from_address (Dict [(''name'', PStr ''N'')])
            \<lparr>from_address = Some [(''ShipFromAddress.Name'', PStr ''Old''),
                                   (''ShipFromAddress.CountryCode'', PStr ''US'')]\<rparr>
          = (Inl (MWSError msg), \<lparr>from_address = None\<rparr>)"
  using failed_set_clears_address
      [of "Dict [(''name'', PStr ''N'')]" "[(''name'', PStr ''N'')]"
          "\<lparr>from_address = Some [(''ShipFromAddress.Name'', PStr ''Old''),
                                 (''ShipFromAddress.CountryCode'', PStr ''US'')]\<rparr>"]
  by (simp add: dict_has_def)

text \<open>
  Claim C5, as amended. When \<open>shipment_id\<close>, \<open>shipment_name\<close> or \<open>destination\<close> is not
  text, \<^verbatim>\<open>create_inbound_shipment\<close> and \<^verbatim>\<open>update_inbound_shipment\<close> fail before any
  request is built, and the failure is the \<^verbatim>\<open>AssertionError\<close> of an \<^verbatim>\<open>assert\<close>
  statement, not the \<^verbatim>\<open>MWSError\<close> of the other checks.
\<close>

theorem shipment_text_arguments_asserted:
  assumes "\<not> is_str shipment_id \<or> \<not> is_str shipment_name \<or> \<not> is_str destination"
  shows "(\<exists>msg. create_inbound_shipment self shipment_id shipment_name destination items
                  shipment_status label_preference case_required box_contents_source
                = Inl (AssertionError msg))
       \<and> (\<exists>msg. update_inbound_shipment self shipment_id shipment_name destination items
                  shipment_status label_preference case_required box_contents_source
                = Inl (AssertionError msg))"
  using assms by (auto simp: create_inbound_shipment_def update_inbound_shipment_def)

theorem shipment_text_arguments_asserted_witness:
  "(\<exists>msg. create_inbound_shipment \<lparr>from_address = None\<rparr> (PStr ''FBA1'') (PInt 3) (PStr ''ABE2'')
             None PNone PNone PNone PNone = Inl (AssertionError msg))
   \<and> (\<exists>msg. update_inbound_shipment \<lparr>from_address = None\<rparr> (PStr ''FBA1'') (PInt 3) (PStr ''ABE2'')
             None PNone PNone PNone PNone = Inl (AssertionError msg))"
  using shipment_text_arguments_asserted
      [of "PStr ''FBA1''" "PInt 3" "PStr ''ABE2''" "\<lparr>from_address = None\<rparr>" None PNone PNone PNone PNone]
  by simp

text \<open>
  Claim C5 as it was stated fails: a \<open>shipment_id\<close> that is a number ends in an
  \<^verbatim>\<open>AssertionError\<close>, while an empty item list on the same client ends in \<^verbatim>\<open>MWSError\<close>.
\<close>

theorem shipment_text_arguments_asserted_counterexample:
  "create_inbound_shipment \<lparr>from_address = Some [(''ShipFromAddress.Name'', PStr ''N'')]\<rparr>
      (PInt 7) (PStr ''name'') (PStr ''ABE2'')
      (Some [Dict [(''sku'', PStr ''A''), (''quantity'', PInt 2)]]) (PStr []) (PStr []) (PBool False) PNone
    = Inl (AssertionError ''`shipment_id` must be a string.'')
   \<and> create_inbound_shipment \<lparr>from_address = Some [(''ShipFromAddress.Name'', PStr ''N'')]\<rparr>
      (PStr ''FBA1'') (PStr ''name'') (PStr ''ABE2'')
      (Some []) (PStr []) (PStr []) (PBool False) PNone
    = Inl (MWSError ''One or more `item` dict arguments required.'')"
  by (simp add: create_inbound_shipment_def items_required_def)

text \<open>
  Claim C4, as amended. A client constructed with a valid \<^verbatim>\<open>from_address\<close> argument holds
  \<^verbatim>\<open>None\<close> as its address. Every later call of \<^verbatim>\<open>create_inbound_shipment_plan\<close>,
  \<^verbatim>\<open>create_inbound_shipment\<close> or \<^verbatim>\<open>update_inbound_shipment\<close> on it fails, and a call
  that gets past the checks made before the address is read (text identifiers, valid
  items) fails with the address-not-set error. Calling the setter again stores an address.
\<close>

theorem init_with_address_leaves_none:
  assumes "dict_has a ''name''" "dict_has a ''address_1''" "dict_has a ''city''"
  shows "\<exists>self. InboundShipments_init (Dict a) = Inr self \<and> from_address self = None
     \<and> isl (create_inbound_shipment_plan self items cc sc lp)
     \<and> isl (create_inbound_shipment self sid nm dst items st lp cr bcs)
     \<and> isl (update_inbound_shipment self sid nm dst items st lp cr bcs)
     \<and> (\<not> isl (parse_item_args items ''CreateInboundShipmentPlan'') \<longrightarrow>
          create_inbound_shipment_plan self items cc sc lp = Inl address_not_set)
     \<and> (is_str sid \<and> is_str nm \<and> is_str dst \<and> \<not> isl (parse_item_args items ''CreateInboundShipment'') \<longrightarrow>
          create_inbound_shipment self sid nm dst items st lp cr bcs = Inl address_not_set)
     \<and> (is_str sid \<and> is_str nm \<and> is_str dst
          \<and> (\<not> truthy_items items \<or> \<not> isl (parse_item_args items ''UpdateInboundShipment'')) \<longrightarrow>
          update_inbound_shipment self sid nm dst items st lp cr bcs = Inl address_not_set)
     \<and> address_is_set (from_address (snd (set_ship_from_address (Dict a) self)))"
proof -
  have "address_is_set (from_address (snd (set_ship_from_address (Dict a) \<lparr>from_address = None\<rparr>)))"
    by (simp add: set_ship_from_address_ok [OF assms] stored_address_def)
  then show ?thesis
    using init_stores_return_value [OF assms] plan_without_address [of items cc sc lp]
      create_without_address [of sid nm dst items st lp cr bcs]
      update_without_address [of sid nm dst items st lp cr bcs]
    by (intro exI [of _ "\<lparr>from_address = None\<rparr>"]) simp
qed

theorem init_with_address_leaves_none_witness:
  "InboundShipments_init (Dict [(''name'', PStr ''N''), (''address_1'', PStr ''1 Main St''), (''city'', PStr ''C'')])
     = Inr \<lparr>from_address = None\<rparr>
   \<and> create_inbound_shipment_plan \<lparr>from_address = None\<rparr>
        (Some [Dict [(''sku'', PStr ''A''), (''quantity'', PInt 2)]]) (PStr ''US'') (PStr []) (PStr [])
      = Inl address_not_set
   \<and> create_inbound_shipment \<lparr>from_address = None\<rparr> (PStr ''FBA1'') (PStr ''name'') (PStr ''ABE2'')
        (Some [Dict [(''sku'', PStr ''A''), (''quantity'', PInt 2)]]) (PStr []) (PStr []) (PBool False) PNone
      = Inl address_not_set
   \<and> update_inbound_shipment \<lparr>from_address = None\<rparr> (PStr ''FBA1'') (PStr ''name'') (PStr ''ABE2'')
        (Some [Dict [(''sku'', PStr ''A''), (''quantity'', PInt 2)]]) (PStr []) (PStr []) (PBool False) PNone
      = Inl address_not_set"
proof -
  let ?a = "[(''name'', PStr ''N''), (''address_1'', PStr ''1 Main St''), (''city'', PStr ''C'')]"
  let ?items = "Some [Dict [(''sku'', PStr ''A''), (''quantity'', PInt 2)]]"
  have a: "dict_has ?a ''name''" "dict_has ?a ''address_1''" "dict_has ?a ''city''"
    by (simp_all add: dict_has_def)
  have p: "\<not> isl (parse_item_args ?items ''CreateInboundShipmentPlan'')"
    "\<not> isl (parse_item_args ?items ''CreateInboundShipment'')"
    "\<not> isl (parse_item_args ?items ''UpdateInboundShipment'')"
    by code_simp+
  from init_with_address_leaves_none [OF a, of ?items "PStr ''US''" "PStr []" "PStr []"
      "PStr ''FBA1''" "PStr ''name''" "PStr ''ABE2''" "PStr []" "PBool False" PNone] p
  obtain self where self: "InboundShipments_init (Dict ?a) = Inr self" "from_address self = None"
    "create_inbound_shipment_plan self ?items (PStr ''US'') (PStr []) (PStr []) = Inl address_not_set"
    "create_inbound_shipment self (PStr ''FBA1'') (PStr ''name'') (PStr ''ABE2'') ?items
       (PStr []) (PStr []) (PBool False) PNone = Inl address_not_set"
    "update_inbound_shipment self (PStr ''FBA1'') (PStr ''name'') (PStr ''ABE2'') ?items
       (PStr []) (PStr []) (PBool False) PNone = Inl address_not_set"
    by auto
  from self(2) have "self = \<lparr>from_address = None\<rparr>" by (cases self) simp
  with self show ?thesis by simp
qed

text \<open>
  Claim C4 as it was stated fails: on such a client a call with an empty item list fails
  at the item check, which comes first, not with the address-not-set error.
\<close>

theorem init_with_address_leaves_none_counterexample:
  "InboundShipments_init (Dict [(''name'', PStr ''N''), (''address_1'', PStr ''1 Main St''), (''city'', PStr ''C'')])
     = Inr \<lparr>from_address = None\<rparr>
   \<and> create_inbound_shipment_plan \<lparr>from_address = None\<rparr> (Some []) (PStr ''US'') (PStr []) (PStr [])
      = Inl (MWSError ''One or more `item` dict arguments required.'')
   \<and> create_inbound_shipment_plan \<lparr>from_address = None\<rparr> (Some []) (PStr ''US'') (PStr []) (PStr [])
      \<noteq> Inl address_not_set"
  by code_simp

section \<open>Requests of \<^verbatim>\<open>create_inbound_shipment\<close> and \<^verbatim>\<open>update_inbound_shipment\<close>\<close>

lemma member_key_eq: "member_key pfx n f = member_key pfx m g \<longleftrightarrow> n = m \<and> f = g"
  unfolding member_key_def using member_key_inj by blast

lemma keyed_entries_eq:
  "keyed_entries pfx (n, d) = map (\<lambda>(k, v). (member_key pfx n k, v)) d"
  by (simp add: keyed_entries_def member_key_def)

lemma entries_from_simps:
  "entries_from pfx n [] = []"
  "entries_from pfx n (d # ds) = keyed_entries pfx (n, d) @ entries_from pfx (Suc n) ds"
  by (simp_all add: entries_from_def)

lemma enumerate_keyed_param_eq:
  "enumerate_keyed_param pfx dicts = dict_of (entries_from pfx 1 dicts)"
  by (simp add: enumerate_keyed_param_def entries_from_def)

lemma keys_keyed_entries:
  "fst ` set (keyed_entries pfx (n, d)) = member_key pfx n ` fst ` set d"
  by (force simp: keyed_entries_eq)

lemma keys_entries_from:
  "k \<in> fst ` set (entries_from pfx n dicts) \<longleftrightarrow>
     (\<exists>i < length dicts. \<exists>f \<in> fst ` set (dicts ! i). k = member_key pfx (n + i) f)"
proof (induction dicts arbitrary: n)
  case Nil
  show ?case by (simp add: entries_from_simps)
next
  case (Cons d ds)
  have "k \<in> fst ` set (entries_from pfx n (d # ds)) \<longleftrightarrow>
        k \<in> member_key pfx n ` fst ` set d \<or> k \<in> fst ` set (entries_from pfx (Suc n) ds)"
    by (simp add: entries_from_simps image_Un keys_keyed_entries)
  also have "\<dots> \<longleftrightarrow> (\<exists>f \<in> fst ` set d. k = member_key pfx n f)
      \<or> (\<exists>i < length ds. \<exists>f \<in> fst ` set (ds ! i). k = member_key pfx (Suc n + i) f)"
    by (subst Cons.IH) blast
  also have "\<dots> \<longleftrightarrow> (\<exists>i < length (d # ds). \<exists>f \<in> fst ` set ((d # ds) ! i). k = member_key pfx (n + i) f)"
    (is "?L \<longleftrightarrow> ?R")
  proof
    assume ?L
    then show ?R
    proof
      assume "\<exists>f \<in> fst ` set d. k = member_key pfx n f"
      then show ?R by (intro exI [of _ 0]) simp
    next
      assume "\<exists>i < length ds. \<exists>f \<in> fst ` set (ds ! i). k = member_key pfx (Suc n + i) f"
      then obtain i where "i < length ds" "\<exists>f \<in> fst ` set (ds ! i). k = member_key pfx (Suc n + i) f"
        by blast
      then show ?R by (intro exI [of _ "Suc i"]) simp
    qed
  next
    assume ?R
    then obtain i where i: "i < length (d # ds)"
      "\<exists>f \<in> fst ` set ((d # ds) ! i). k = member_key pfx (n + i) f" by blast
    show ?L
    proof (cases i)
      case 0
      with i show ?thesis by simp
    next
      case (Suc j)
      with i have "j < length ds \<and> (\<exists>f \<in> fst ` set (ds ! j). k = member_key pfx (Suc n + j) f)" by simp
      then show ?thesis by blast
    qed
  qed
  finally show ?case .
qed

lemma map_of_keyed:
  "map_of (map (\<lambda>(k, v). (member_key pfx n k, v)) xs) (member_key pfx m f)
     = (if m = n then map_of xs f else None)"
  by (induction xs) (auto simp: member_key_eq)

lemma rev_keyed:
  "rev (map (\<lambda>(k, v). (member_key pfx n k, v)) xs) = map (\<lambda>(k, v). (member_key pfx n k, v)) (rev xs)"
  by (simp add: rev_map)

lemma map_of_entries_from:
  assumes "\<forall>d \<in> set dicts. distinct (map fst d)" and "i < length dicts"
  shows "map_of (rev (entries_from pfx n dicts)) (member_key pfx (n + i) f) = map_of (dicts ! i) f"
  using assms
proof (induction dicts arbitrary: n i)
  case Nil
  then show ?case by simp
next
  case (Cons d ds)
  have split: "map_of (rev (entries_from pfx n (d # ds))) (member_key pfx (n + i) f)
      = (case map_of (rev (entries_from pfx (Suc n) ds)) (member_key pfx (n + i) f) of
           Some v \<Rightarrow> Some v
         | None \<Rightarrow> (if i = 0 then map_of (rev d) f else None))"
    by (simp add: entries_from_simps keyed_entries_eq rev_keyed map_of_keyed map_add_def
        split: option.splits)
  show ?case
  proof (cases i)
    case 0
    have "member_key pfx n f \<notin> fst ` set (entries_from pfx (Suc n) ds)"
      by (auto simp: keys_entries_from member_key_eq)
    then have "map_of (rev (entries_from pfx (Suc n) ds)) (member_key pfx n f) = None"
      by (simp add: map_of_eq_None_iff)
    moreover from Cons.prems have "map_of (rev d) f = map_of d f"
      by (simp add: map_of_rev_distinct)
    ultimately show ?thesis using 0 split by simp
  next
    case (Suc j)
    with Cons.prems have "map_of (rev (entries_from pfx (Suc n) ds)) (member_key pfx (Suc n + j) f)
        = map_of (ds ! j) f"
      by (intro Cons.IH) auto
    with Suc split show ?thesis by (simp split: option.splits)
  qed
qed

lemma map_of_enumerate_keyed_param:
  assumes "\<forall>d \<in> set dicts. distinct (map fst d)" and "i < length dicts"
  shows "map_of (enumerate_keyed_param pfx dicts) (member_key pfx (Suc i) f) = map_of (dicts ! i) f"
  using map_of_entries_from [OF assms, of pfx 1 f]
  by (simp add: enumerate_keyed_param_eq map_of_dict_of)

lemma keys_enumerate_keyed_param:
  "k \<in> fst ` set (enumerate_keyed_param pfx dicts) \<longleftrightarrow>
     (\<exists>i < length dicts. \<exists>f \<in> fst ` set (dicts ! i). k = member_key pfx (Suc i) f)"
  by (simp add: enumerate_keyed_param_eq keys_dict_of keys_entries_from)


lemma map_of_dict_update_distinct:
  "distinct (map fst other) \<Longrightarrow> map_of (dict_update d other) = map_of d ++ map_of other"
  by (simp add: map_of_dict_update map_of_rev_distinct)

lemma shipment_data_eq:
  "shipment_data action sid nm dst lp cr st bcs =
     [(''Action'', PStr action),
      (''ShipmentId'', sid),
      (''InboundShipmentHeader.ShipmentName'', nm),
      (''InboundShipmentHeader.DestinationFulfillmentCenterId'', dst),
      (''InboundShipmentHeader.LabelPrepPreference'', lp),
      (''InboundShipmentHeader.AreCasesRequired'', cr),
      (''InboundShipmentHeader.ShipmentStatus'', st),
      (''InboundShipmentHeader.IntendedBoxContentsSource'', bcs)]"
  by (simp add: shipment_data_def dict_of_def dict_update_def)

lemma keys_header_address:
  "fst ` set (header_address fa) = (\<lambda>k. ''InboundShipmentHeader.'' @ k) ` fst ` set fa"
  by (force simp: header_address_def keys_dict_of)


lemma update_ok_items:
  assumes "is_str sid" "is_str nm" "is_str dst" "address_is_set (from_address self)"
    and "ds \<noteq> []" "\<forall>d \<in> set ds. dict_has d ''sku'' \<and> dict_has d ''quantity''"
  shows "update_inbound_shipment self sid nm dst (Some (map Dict ds)) st lp cr bcs =
     Inr (dict_update
            (shipment_base ''UpdateInboundShipment'' self sid nm dst
               (if st \<notin> set SHIPMENT_STATUSES then PNone else st) lp cr bcs)
            (enumerate_keyed_param ''InboundShipmentItems.member''
               (map (item_dict (item_key_config ''UpdateInboundShipment'')
                       (quantity_key ''UpdateInboundShipment'')) ds)))"
  using assms(1-5) parse_item_args_ok [OF assms(5,6), of "''UpdateInboundShipment''"]
  by (simp add: update_inbound_shipment_def shipment_base_def Let_def)

lemma update_ok_no_items:
  assumes "is_str sid" "is_str nm" "is_str dst" "address_is_set (from_address self)"
    and "\<not> truthy_items items"
  shows "update_inbound_shipment self sid nm dst items st lp cr bcs =
     Inr (shipment_base ''UpdateInboundShipment'' self sid nm dst
            (if st \<notin> set SHIPMENT_STATUSES then PNone else st) lp cr bcs)"
  using assms by (simp add: update_inbound_shipment_def shipment_base_def Let_def)

lemma no_item_prefix_in_base:
  "k \<in> fst ` set (shipment_base action self sid nm dst st lp cr bcs) \<Longrightarrow>
     \<not> prefix ''InboundShipmentItems.'' k"
  by (auto simp: shipment_base_def keys_dict_update keys_header_address shipment_data_eq)






text \<open>
  Claim C8. For text identifiers and a client with an address set,
  \<^verbatim>\<open>update_inbound_shipment\<close> succeeds and: when \<open>items\<close> is \<^verbatim>\<open>None\<close> or empty, no key
  of the request starts with \<^verbatim>\<open>InboundShipmentItems.\<close>; when \<open>items\<close> is a valid
  non-empty list, the request holds, for the item at position \<open>i\<close> (from 0), the keys
  \<^verbatim>\<open>InboundShipmentItems.member.<i+1>.<Field>\<close> with that item's values, and every key
  that starts with \<^verbatim>\<open>InboundShipmentItems.\<close> is one of these, with an index from 1 to
  the number of items.
\<close>

theorem update_items_block:
  assumes "is_str shipment_id" "is_str shipment_name" "is_str destination"
    and "address_is_set (from_address self)"
  shows "(\<not> truthy_items items \<longrightarrow>
          (\<exists>data. update_inbound_shipment self shipment_id shipment_name destination items
                    shipment_status label_preference case_required box_contents_source = Inr data
               \<and> (\<forall>k \<in> fst ` set data. \<not> prefix ''InboundShipmentItems.'' k)))
       \<and> (ds \<noteq> [] \<and> (\<forall>d \<in> set ds. dict_has d ''sku'' \<and> dict_has d ''quantity'') \<longrightarrow>
          (\<exists>data. update_inbound_shipment self shipment_id shipment_name destination (Some (map Dict ds))
                    shipment_status label_preference case_required box_contents_source = Inr data
               \<and> (\<forall>i < length ds.
                     map_of data (''InboundShipmentItems.member.'' @ str_nat (Suc i) @ ''.SellerSKU'')
                       = map_of (ds ! i) ''sku''
                   \<and> map_of data (''InboundShipmentItems.member.'' @ str_nat (Suc i) @ ''.QuantityShipped'')
                       = map_option str_or_none (map_of (ds ! i) ''quantity'')
                   \<and> map_of data (''InboundShipmentItems.member.'' @ str_nat (Suc i) @ ''.QuantityInCase'')
                       = Some (str_or_none (dict_get (ds ! i) ''quantity_in_case'' PNone)))
               \<and> (\<forall>k \<in> fst ` set data. prefix ''InboundShipmentItems.'' k \<longrightarrow>
                     (\<exists>n f. 1 \<le> n \<and> n \<le> length ds
                        \<and> f \<in> {''SellerSKU'', ''QuantityShipped'', ''QuantityInCase''}
                        \<and> k = ''InboundShipmentItems.member.'' @ str_nat n @ ''.'' @ f))))"
proof (intro conjI impI)
  assume "\<not> truthy_items items"
  from update_ok_no_items [OF assms this]
  show "\<exists>data. update_inbound_shipment self shipment_id shipment_name destination items
                    shipment_status label_preference case_required box_contents_source = Inr data
               \<and> (\<forall>k \<in> fst ` set data. \<not> prefix ''InboundShipmentItems.'' k)"
    using no_item_prefix_in_base by blast
next
  assume valid: "ds \<noteq> [] \<and> (\<forall>d \<in> set ds. dict_has d ''sku'' \<and> dict_has d ''quantity'')"
  let ?parsed = "map (item_dict (item_key_config ''UpdateInboundShipment'')
                       (quantity_key ''UpdateInboundShipment'')) ds"
  let ?items = "enumerate_keyed_param ''InboundShipmentItems.member'' ?parsed"
  let ?base = "shipment_base ''UpdateInboundShipment'' self shipment_id shipment_name destination
               (if shipment_status \<notin> set SHIPMENT_STATUSES then PNone else shipment_status)
               label_preference case_required box_contents_source"
  let ?data = "dict_update ?base ?items"
  have parsed: "?parsed ! i =
      [(''SellerSKU'', dict_get (ds ! i) ''sku'' PNone),
       (''QuantityShipped'', str_or_none (dict_get (ds ! i) ''quantity'' PNone)),
       (''QuantityInCase'', str_or_none (dict_get (ds ! i) ''quantity_in_case'' PNone))]"
    if "i < length ds" for i
    using that by (simp add: item_dict_other)
  have dist: "\<forall>d \<in> set ?parsed. distinct (map fst d)"
    by (simp add: item_dict_other)
  have run: "update_inbound_shipment self shipment_id shipment_name destination (Some (map Dict ds))
                    shipment_status label_preference case_required box_contents_source = Inr ?data"
    using valid by (intro update_ok_items [OF assms]) simp_all
  have look: "map_of ?data (member_key ''InboundShipmentItems.member'' (Suc i) f) = Some v"
    if "i < length ds" "map_of (?parsed ! i) f = Some v" for i f v
  proof -
    from that have "map_of ?items (member_key ''InboundShipmentItems.member'' (Suc i) f) = Some v"
      using map_of_enumerate_keyed_param [OF dist, of i "''InboundShipmentItems.member''" f] by simp
    then show ?thesis
      by (simp add: map_of_dict_update_distinct enumerate_keyed_param_def distinct_dict_of)
  qed
  have vals: "map_of ?data (''InboundShipmentItems.member.'' @ str_nat (Suc i) @ ''.SellerSKU'')
                       = map_of (ds ! i) ''sku''
                   \<and> map_of ?data (''InboundShipmentItems.member.'' @ str_nat (Suc i) @ ''.QuantityShipped'')
                       = map_option str_or_none (map_of (ds ! i) ''quantity'')
                   \<and> map_of ?data (''InboundShipmentItems.member.'' @ str_nat (Suc i) @ ''.QuantityInCase'')
                       = Some (str_or_none (dict_get (ds ! i) ''quantity_in_case'' PNone))"
    if i: "i < length ds" for i
  proof -
    from i valid have "dict_has (ds ! i) ''sku''" "dict_has (ds ! i) ''quantity''"
      by auto
    then obtain s q where sq: "map_of (ds ! i) ''sku'' = Some s" "map_of (ds ! i) ''quantity'' = Some q"
      by (auto simp: dict_has_def)
    show ?thesis
      using look [OF i, of "''SellerSKU''"] look [OF i, of "''QuantityShipped''"]
        look [OF i, of "''QuantityInCase''"]
      by (simp add: parsed [OF i] member_key_def sq dict_get_def)
  qed
  have keys: "\<exists>n f. 1 \<le> n \<and> n \<le> length ds
                        \<and> f \<in> {''SellerSKU'', ''QuantityShipped'', ''QuantityInCase''}
                        \<and> k = ''InboundShipmentItems.member.'' @ str_nat n @ ''.'' @ f"
    if k: "k \<in> fst ` set ?data" "prefix ''InboundShipmentItems.'' k" for k
  proof -
    from k(1) have "k \<in> fst ` set ?base \<or> k \<in> fst ` set ?items"
      by (simp only: keys_dict_update Un_iff)
    with k(2) no_item_prefix_in_base [of k] have "k \<in> fst ` set ?items"
      by blast
    then have "\<exists>i < length ?parsed. \<exists>f \<in> fst ` set (?parsed ! i).
                 k = member_key ''InboundShipmentItems.member'' (Suc i) f"
      by (simp only: keys_enumerate_keyed_param)
    then obtain i f where i': "i < length ?parsed" and f: "f \<in> fst ` set (?parsed ! i)"
        and keq: "k = member_key ''InboundShipmentItems.member'' (Suc i) f"
      by blast
    from i' have i: "i < length ds" by simp
    from f have "f \<in> {''SellerSKU'', ''QuantityShipped'', ''QuantityInCase''}"
      by (simp add: parsed [OF i])
    with i keq have "1 \<le> Suc i \<and> Suc i \<le> length ds
        \<and> f \<in> {''SellerSKU'', ''QuantityShipped'', ''QuantityInCase''}
        \<and> k = ''InboundShipmentItems.member.'' @ str_nat (Suc i) @ ''.'' @ f"
      by (simp add: member_key_def)
    then show ?thesis by blast
  qed
  from run vals keys
  show "\<exists>data. update_inbound_shipment self shipment_id shipment_name destination (Some (map Dict ds))
                    shipment_status label_preference case_required box_contents_source = Inr data
               \<and> (\<forall>i < length ds.
                     map_of data (''InboundShipmentItems.member.'' @ str_nat (Suc i) @ ''.SellerSKU'')
                       = map_of (ds ! i) ''sku''
                   \<and> map_of data (''InboundShipmentItems.member.'' @ str_nat (Suc i) @ ''.QuantityShipped'')
                       = map_option str_or_none (map_of (ds ! i) ''quantity'')
                   \<and> map_of data (''InboundShipmentItems.member.'' @ str_nat (Suc i) @ ''.QuantityInCase'')
                       = Some (str_or_none (dict_get (ds ! i) ''quantity_in_case'' PNone)))
               \<and> (\<forall>k \<in> fst ` set data. prefix ''InboundShipmentItems.'' k \<longrightarrow>
                     (\<exists>n f. 1 \<le> n \<and> n \<le> length ds
                        \<and> f \<in> {''SellerSKU'', ''QuantityShipped'', ''QuantityInCase''}
                        \<and> k = ''InboundShipmentItems.member.'' @ str_nat n @ ''.'' @ f))"
    by (intro exI [of _ ?data]) blast
qed

theorem update_items_block_witness:
  "(\<exists>data. update_inbound_shipment \<lparr>from_address = Some [(''ShipFromAddress.Name'', PStr ''N'')]\<rparr>
             (PStr ''FBA1'') (PStr ''name'') (PStr ''ABE2'') None
             (PStr []) (PStr []) (PBool False) PNone = Inr data
        \<and> ''InboundShipmentItems.member.1.SellerSKU'' \<notin> fst ` set data)
   \<and> (\<exists>data. update_inbound_shipment \<lparr>from_address = Some [(''ShipFromAddress.Name'', PStr ''N'')]\<rparr>
             (PStr ''FBA1'') (PStr ''name'') (PStr ''ABE2'')
             (Some (map Dict [ [(''sku'', PStr ''A''), (''quantity'', PInt 2)],
                              [(''sku'', PStr ''B''), (''quantity'', PStr ''5'')]]))
             (PStr []) (PStr []) (PBool False) PNone = Inr data
        \<and> map_of data ''InboundShipmentItems.member.1.SellerSKU'' = Some (PStr ''A'')
        \<and> map_of data ''InboundShipmentItems.member.2.SellerSKU'' = Some (PStr ''B'')
        \<and> map_of data ''InboundShipmentItems.member.2.QuantityShipped'' = Some (PStr ''5''))"
proof -
  let ?self = "\<lparr>from_address = Some [(''ShipFromAddress.Name'', PStr ''N'')]\<rparr>"
  let ?ds = "[ [(''sku'', PStr ''A''), (''quantity'', PInt 2)],
              [(''sku'', PStr ''B''), (''quantity'', PStr ''5'')]]"
  have ids: "is_str (PStr ''FBA1'')" "is_str (PStr ''name'')" "is_str (PStr ''ABE2'')"
    by simp_all
  have addr: "address_is_set (from_address ?self)" by simp
  note both = update_items_block [OF ids addr, of None "PStr []" "PStr []" "PBool False" PNone ?ds]
  have n1: "str_nat (Suc 0) = ''1''" and n2: "str_nat (Suc (Suc 0)) = ''2''"
    by (simp_all add: str_nat.simps digit_char_def)
  from both obtain data where d1:
    "update_inbound_shipment ?self (PStr ''FBA1'') (PStr ''name'') (PStr ''ABE2'') None
       (PStr []) (PStr []) (PBool False) PNone = Inr data"
    "\<forall>k \<in> fst ` set data. \<not> prefix ''InboundShipmentItems.'' k"
    by auto
  have "prefix ''InboundShipmentItems.'' ''InboundShipmentItems.member.1.SellerSKU''"
    by simp
  with d1(2) have "''InboundShipmentItems.member.1.SellerSKU'' \<notin> fst ` set data"
    by blast
  with d1(1) have first: "\<exists>data. update_inbound_shipment ?self (PStr ''FBA1'') (PStr ''name'')
       (PStr ''ABE2'') None (PStr []) (PStr []) (PBool False) PNone = Inr data
        \<and> ''InboundShipmentItems.member.1.SellerSKU'' \<notin> fst ` set data"
    by blast
  have valid: "?ds \<noteq> [] \<and> (\<forall>d \<in> set ?ds. dict_has d ''sku'' \<and> dict_has d ''quantity'')"
    by (simp add: dict_has_def)
  with both obtain data' where d2:
    "update_inbound_shipment ?self (PStr ''FBA1'') (PStr ''name'') (PStr ''ABE2'') (Some (map Dict ?ds))
       (PStr []) (PStr []) (PBool False) PNone = Inr data'"
    "\<forall>i < length ?ds.
        map_of data' (''InboundShipmentItems.member.'' @ str_nat (Suc i) @ ''.SellerSKU'')
          = map_of (?ds ! i) ''sku''
      \<and> map_of data' (''InboundShipmentItems.member.'' @ str_nat (Suc i) @ ''.QuantityShipped'')
          = map_option str_or_none (map_of (?ds ! i) ''quantity'')
      \<and> map_of data' (''InboundShipmentItems.member.'' @ str_nat (Suc i) @ ''.QuantityInCase'')
          = Some (str_or_none (dict_get (?ds ! i) ''quantity_in_case'' PNone))"
    by blast
  from d2(2) have "map_of data' ''InboundShipmentItems.member.1.SellerSKU'' = Some (PStr ''A'')"
    by (drule_tac x = 0 in spec) (simp add: n1)
  moreover from d2(2) have
    "map_of data' ''InboundShipmentItems.member.2.SellerSKU'' = Some (PStr ''B'')
     \<and> map_of data' ''InboundShipmentItems.member.2.QuantityShipped'' = Some (PStr ''5'')"
    by (drule_tac x = 1 in spec) (simp add: n2 str_or_none_def)
  ultimately show ?thesis using first d2(1) by blast
qed

section \<open>Continuation tokens\<close>

text \<open>
  Claim C1 does not hold of \<^verbatim>\<open>get_report_list\<close>. Called with a text \<open>next_token\<close>,
  \<^verbatim>\<open>list_inbound_shipments\<close>, \<^verbatim>\<open>list_inbound_shipment_items\<close> and
  \<^verbatim>\<open>get_report_request_list\<close> build the request with exactly the two parameters
  \<^verbatim>\<open>Action\<close>, the operation name followed by \<^verbatim>\<open>ByNextToken\<close>, and \<^verbatim>\<open>NextToken\<close>, the
  token, whatever the other arguments are. \<^verbatim>\<open>get_report_list\<close> is decorated with
  \<^verbatim>\<open>GetReportList\<close>, which the \<^verbatim>\<open>NEXT_TOKEN_OPERATIONS\<close> of \<^verbatim>\<open>Reports\<close> does not list:
  the same call builds no request and ends in \<^verbatim>\<open>MWSError\<close>.
\<close>

theorem get_report_list_token_not_declared:
  "get_report_list u (PStr token) args3 = Inl (MWSError (not_listed_message u ''GetReportList''))
   \<and> list_inbound_shipments u (PStr token) args1
       = Inr [(''Action'', PStr ''ListInboundShipmentsByNextToken''), (''NextToken'', PStr token)]
   \<and> list_inbound_shipment_items u (PStr token) args2
       = Inr [(''Action'', PStr ''ListInboundShipmentItemsByNextToken''), (''NextToken'', PStr token)]
   \<and> get_report_request_list u (PStr token) args4
       = Inr [(''Action'', PStr ''GetReportRequestListByNextToken''), (''NextToken'', PStr token)]"
  by (simp add: list_inbound_shipments_def list_inbound_shipment_items_def get_report_list_def
      get_report_request_list_def next_token_action_def dict_of_def dict_update_def
      InboundShipments_NEXT_TOKEN_OPERATIONS_def Reports_NEXT_TOKEN_OPERATIONS_def)

text \<open>
  Claim C9 does not hold of the class \<^verbatim>\<open>Reports\<close>: the decorator sits on the methods of
  \<^verbatim>\<open>GetReportList\<close> and \<^verbatim>\<open>GetReportRequestList\<close>, while \<^verbatim>\<open>NEXT_TOKEN_OPERATIONS\<close>
  declares \<^verbatim>\<open>GetReportRequestList\<close> and \<^verbatim>\<open>GetReportScheduleList\<close>. In the class
  \<^verbatim>\<open>InboundShipments\<close> the decorated methods are the declared operations.
\<close>

theorem reports_wrapped_differs_from_declared:
  "wrapped_actions Reports_methods = [''GetReportList'', ''GetReportRequestList'']
   \<and> Reports_NEXT_TOKEN_OPERATIONS = [''GetReportRequestList'', ''GetReportScheduleList'']
   \<and> ''GetReportScheduleList'' \<notin> set (wrapped_actions Reports_methods)
   \<and> ''GetReportList'' \<notin> set Reports_NEXT_TOKEN_OPERATIONS
   \<and> set (wrapped_actions Reports_methods) \<noteq> set Reports_NEXT_TOKEN_OPERATIONS
   \<and> get_report_schedule_list u types
       = Inr (dict_update [(''Action'', PStr ''GetReportScheduleList'')]
                (enumerate_param u ''ReportTypeList.Type.'' types))
   \<and> wrapped_actions InboundShipments_methods = InboundShipments_NEXT_TOKEN_OPERATIONS"
proof -
  have w: "wrapped_actions Reports_methods = [''GetReportList'', ''GetReportRequestList'']"
    by (simp add: wrapped_actions_def Reports_methods_def)
  have d: "Reports_NEXT_TOKEN_OPERATIONS = [''GetReportRequestList'', ''GetReportScheduleList'']"
    by (simp add: Reports_NEXT_TOKEN_OPERATIONS_def)
  have "''GetReportList'' \<in> set (wrapped_actions Reports_methods)"
    and out: "''GetReportList'' \<notin> set Reports_NEXT_TOKEN_OPERATIONS"
    by (simp_all add: w d)
  then have differ: "set (wrapped_actions Reports_methods) \<noteq> set Reports_NEXT_TOKEN_OPERATIONS"
    by blast
  have sched: "''GetReportScheduleList'' \<notin> set (wrapped_actions Reports_methods)"
    by (simp add: w)
  have plain: "get_report_schedule_list u types
       = Inr (dict_update [(''Action'', PStr ''GetReportScheduleList'')]
                (enumerate_param u ''ReportTypeList.Type.'' types))"
    by (simp add: get_report_schedule_list_def dict_of_def dict_update_def)
  have inbound: "wrapped_actions InboundShipments_methods = InboundShipments_NEXT_TOKEN_OPERATIONS"
    by (simp add: wrapped_actions_def InboundShipments_methods_def
        InboundShipments_NEXT_TOKEN_OPERATIONS_def)
  from w d sched out differ plain inbound show ?thesis by blast
qed

end
